theory Spec2Isabelle
  imports Main "HOL-Library.Char_ord" "HOL-Library.List_Lexorder"
begin

section \<open>Python strings used by envier\<close>

text \<open>
  Strings are lists of 8-bit characters, so the model covers ASCII text: \<open>str.upper\<close>
  and \<open>str.lower\<close> change the 26 letters and nothing else.
\<close>

definition upper_char :: "char \<Rightarrow> char" where
  "upper_char c =
     (let n = (of_char c :: nat) in if 97 \<le> n \<and> n \<le> 122 then char_of (n - 32) else c)"

definition lower_char :: "char \<Rightarrow> char" where
  "lower_char c =
     (let n = (of_char c :: nat) in if 65 \<le> n \<and> n \<le> 90 then char_of (n + 32) else c)"

definition upper :: "string \<Rightarrow> string" where
  "upper s = map upper_char s"

definition lower :: "string \<Rightarrow> string" where
  "lower s = map lower_char s"

text \<open>\<open>s.replace(".", "_")\<close>: both strings are one character long.\<close>

definition replace_dot :: "string \<Rightarrow> string" where
  "replace_dot s = map (\<lambda>c. if c = CHR ''.'' then CHR ''_'' else c) s"

text \<open>\<open>s.rstrip("_")\<close> removes every trailing underscore.\<close>

definition rstrip_underscore :: "string \<Rightarrow> string" where
  "rstrip_underscore s = rev (dropWhile (\<lambda>c. c = CHR ''_'') (rev s))"

text \<open>\<open>s.endswith("_")\<close>.\<close>

definition endswith_underscore :: "string \<Rightarrow> bool" where
  "endswith_underscore s = (s \<noteq> [] \<and> last s = CHR ''_'')"

text \<open>\<open>s.endswith(".")\<close>.\<close>

definition endswith_dot :: "string \<Rightarrow> bool" where
  "endswith_dot s = (s \<noteq> [] \<and> last s = CHR ''.'')"

text \<open>
  \<open>s.strip()\<close> removes the white space at both ends; of the ASCII characters Python
  counts the codes 9 to 13 and 28 to 32 as white space.
\<close>

definition is_space :: "char \<Rightarrow> bool" where
  "is_space c = (let n = (of_char c :: nat) in (9 \<le> n \<and> n \<le> 13) \<or> (28 \<le> n \<and> n \<le> 32))"

definition strip :: "string \<Rightarrow> string" where
  "strip s = rev (dropWhile is_space (rev (dropWhile is_space s)))"

text \<open>
  \<open>_normalized(name)\<close> is \<open>name.upper().replace(".", "_").rstrip("_")\<close>.
\<close>

definition normalized :: "string \<Rightarrow> string" where
  "normalized name = rstrip_underscore (replace_dot (upper name))"

text \<open>
  \<open>s.split(sep)\<close> with a separator string cuts at every occurrence of \<open>sep\<close>, scanning
  from the left; an empty separator raises ValueError. \<open>split_from sep acc s\<close> is the scan:
  \<open>acc\<close> holds, reversed, the characters of the piece being read.
\<close>

fun split_from :: "string \<Rightarrow> string \<Rightarrow> string \<Rightarrow> string list" where
  "split_from sep acc [] = [rev acc]"
| "split_from sep acc (c # cs) =
     (if sep \<noteq> [] \<and> take (length sep) (c # cs) = sep
      then rev acc # split_from sep [] (drop (length sep - 1) cs)
      else split_from sep (c # acc) cs)"

text \<open>\<open>s.split(sep, 1)\<close> cuts at the first occurrence only.\<close>

fun split_once_from :: "string \<Rightarrow> string \<Rightarrow> string \<Rightarrow> string list" where
  "split_once_from sep acc [] = [rev acc]"
| "split_once_from sep acc (c # cs) =
     (if sep \<noteq> [] \<and> take (length sep) (c # cs) = sep
      then [rev acc, drop (length sep - 1) cs]
      else split_once_from sep (c # acc) cs)"

section \<open>Values, types and exceptions\<close>

text \<open>
  The exceptions the module raises or lets through. The text of a \<open>KeyError\<close> is kept
  (it names the missing key); the texts of the other built-in errors are not modelled.
  \<open>Raised\<close> is any other exception, raised by a parser, validator, map or derivation
  the application passes in.
\<close>

datatype exc = KeyError string | TypeError | ValueError | AttributeError | Raised string

text \<open>
  Plain Python values. A set lists its members once each; a dict is its list of items in
  insertion order.
\<close>

datatype pyval =
    VNone
  | VBool bool
  | VInt int
  | VStr string
  | VList "pyval list"
  | VTuple "pyval list"
  | VSet "pyval list"
  | VDict "(pyval \<times> pyval) list"

text \<open>
  The type objects a variable can be declared with: the built-in classes and
  \<open>typing.Union[...]\<close>, the one kind of type here that has \<open>__origin__\<close> and \<open>__args__\<close>.
\<close>

datatype pytype =
    TBool | TInt | TStr | TList | TTuple | TSet | TDict | TNoneType
  | TUnion "pytype list"

text \<open>The default of a variable: the sentinel object \<open>NoDefault\<close> or a value.\<close>

datatype default_value = NoDefault | Default pyval

text \<open>
  \<open>isinstance(value, cls)\<close>; \<open>bool\<close> is a subclass of \<open>int\<close>. For a tuple of classes
  (\<open>isinstance_any\<close>) one of them has to match.
\<close>

fun isinstance :: "pyval \<Rightarrow> pytype \<Rightarrow> bool" where
  "isinstance (VBool _) TBool = True"
| "isinstance (VBool _) TInt = True"
| "isinstance (VInt _) TInt = True"
| "isinstance (VStr _) TStr = True"
| "isinstance (VList _) TList = True"
| "isinstance (VTuple _) TTuple = True"
| "isinstance (VSet _) TSet = True"
| "isinstance (VDict _) TDict = True"
| "isinstance VNone TNoneType = True"
| "isinstance v (TUnion ts) = list_ex (isinstance v) ts"
| "isinstance _ _ = False"

definition isinstance_any :: "pyval \<Rightarrow> pytype list \<Rightarrow> bool" where
  "isinstance_any v ts = list_ex (isinstance v) ts"

text \<open>
  \<open>isinstance(default, cls)\<close> for the default as declared: the sentinel is an instance of
  \<open>NoDefaultType\<close>, which is none of the types above.
\<close>

fun default_isinstance :: "default_value \<Rightarrow> pytype \<Rightarrow> bool" where
  "default_isinstance NoDefault t = False"
| "default_isinstance (Default v) t = isinstance v t"

definition default_isinstance_any :: "default_value \<Rightarrow> pytype list \<Rightarrow> bool" where
  "default_isinstance_any d ts = list_ex (default_isinstance d) ts"

text \<open>
  \<open>_check_type(value, _type)\<close>: a type with \<open>__origin__\<close> is checked against its
  \<open>__args__\<close>.
\<close>

fun check_type :: "pyval \<Rightarrow> pytype \<Rightarrow> bool" where
  "check_type v (TUnion ts) = isinstance_any v ts"
| "check_type v t = isinstance v t"

section \<open>Built-in constructors\<close>

text \<open>
  What calling a type object on a string does. \<open>int(s)\<close> (Python 3.6 and later, ASCII
  input) strips white space, reads an optional sign and then groups of decimal digits
  joined by single underscores; anything else is a ValueError.
\<close>

definition is_digit :: "char \<Rightarrow> bool" where
  "is_digit c = (let n = (of_char c :: nat) in 48 \<le> n \<and> n \<le> 57)"

definition digits_value :: "string \<Rightarrow> int" where
  "digits_value ds = foldl (\<lambda>acc c. 10 * acc + (int (of_char c) - 48)) 0 ds"

definition valid_digits :: "string \<Rightarrow> bool" where
  "valid_digits body =
     list_all (\<lambda>g. g \<noteq> [] \<and> list_all is_digit g) (split_from ''_'' [] body)"

definition py_int :: "string \<Rightarrow> exc + pyval" where
  "py_int s =
     (let t = strip s;
          neg = (t \<noteq> [] \<and> hd t = CHR ''-'');
          body = (if t \<noteq> [] \<and> (hd t = CHR ''-'' \<or> hd t = CHR ''+'') then tl t else t)
      in if valid_digits body
         then (let n = digits_value (filter (\<lambda>c. c \<noteq> CHR ''_'') body)
               in Inr (VInt (if neg then - n else n)))
         else Inl ValueError)"

text \<open>
  Hashing and equality of values, as sets and dict keys use them: lists, sets and dicts
  are unhashable, and \<open>True == 1\<close>, \<open>False == 0\<close>. \<open>py_key\<close> maps equal hashable values
  to one representative.
\<close>

fun hashable :: "pyval \<Rightarrow> bool" where
  "hashable (VList _) = False"
| "hashable (VSet _) = False"
| "hashable (VDict _) = False"
| "hashable (VTuple xs) = list_all hashable xs"
| "hashable _ = True"

fun py_key :: "pyval \<Rightarrow> pyval" where
  "py_key (VBool b) = VInt (if b then 1 else 0)"
| "py_key (VTuple xs) = VTuple (map py_key xs)"
| "py_key v = v"

definition py_eq :: "pyval \<Rightarrow> pyval \<Rightarrow> bool" where
  "py_eq a b = (py_key a = py_key b)"

text \<open>\<open>s.add(v)\<close> on a set, and \<open>d[k] = v\<close> on a dict, which keeps the position (and the
  key object) of a key that is already there.\<close>

definition set_add :: "pyval list \<Rightarrow> pyval \<Rightarrow> pyval list" where
  "set_add xs v = (if list_ex (\<lambda>x. py_eq x v) xs then xs else xs @ [v])"

fun dict_setitem :: "('k \<Rightarrow> 'k \<Rightarrow> bool) \<Rightarrow> ('k \<times> 'v) list \<Rightarrow> 'k \<Rightarrow> 'v \<Rightarrow> ('k \<times> 'v) list" where
  "dict_setitem eq [] k v = [(k, v)]"
| "dict_setitem eq ((k', v') # d) k v =
     (if eq k' k then (k', v) # d else (k', v') # dict_setitem eq d k v)"

text \<open>
  \<open>t(raw)\<close> for a type object \<open>t\<close> and a string: \<open>list\<close>, \<open>tuple\<close> and \<open>set\<close> iterate
  over the characters, \<open>dict\<close> accepts only the empty string, \<open>NoneType\<close> takes no
  argument and \<open>typing.Union[...]\<close> cannot be instantiated.
\<close>

definition chars_of :: "string \<Rightarrow> pyval list" where
  "chars_of raw = map (\<lambda>c. VStr [c]) raw"

fun call_type :: "pytype \<Rightarrow> string \<Rightarrow> exc + pyval" where
  "call_type TBool raw = Inr (VBool (raw \<noteq> []))"
| "call_type TInt raw = py_int raw"
| "call_type TStr raw = Inr (VStr raw)"
| "call_type TList raw = Inr (VList (chars_of raw))"
| "call_type TTuple raw = Inr (VTuple (chars_of raw))"
| "call_type TSet raw = Inr (VSet (foldl set_add [] (chars_of raw)))"
| "call_type TDict raw = (if raw = [] then Inr (VDict []) else Inl ValueError)"
| "call_type TNoneType raw = Inl TypeError"
| "call_type (TUnion ts) raw = Inl TypeError"

section \<open>Variable descriptors\<close>

text \<open>
  The \<open>map\<close> of a variable is called with one string for each element of a collection
  and with two strings (key and value) for each item of a dict; a callable of the other
  arity raises TypeError when it is called.
\<close>

datatype map_fn =
    MapItem "string \<Rightarrow> exc + pyval"
  | MapPair "string \<Rightarrow> string \<Rightarrow> exc + (pyval \<times> pyval)"

type_synonym deprecation_info = "string \<times> string option \<times> string option"

record env_variable =
  v_type :: pytype
  v_name :: string
  v_parser :: "(string \<Rightarrow> exc + pyval) option"
  v_validator :: "(pyval \<Rightarrow> exc option) option"
  v_map :: "map_fn option"
  v_default :: default_value
  v_deprecations :: "deprecation_info list option"
  v_help :: "string option"
  v_help_type :: "string option"
  v_help_default :: "string option"

text \<open>
  \<open>EnvVariable.__init__\<close>: the check of the default against the type, then the fields
  are stored.
\<close>

definition EnvVariable_init ::
  "pytype \<Rightarrow> string \<Rightarrow> (string \<Rightarrow> exc + pyval) option \<Rightarrow> (pyval \<Rightarrow> exc option) option \<Rightarrow>
   map_fn option \<Rightarrow> default_value \<Rightarrow> deprecation_info list option \<Rightarrow>
   string option \<Rightarrow> string option \<Rightarrow> string option \<Rightarrow> exc + env_variable" where
  "EnvVariable_init type name parser validator mp dflt deprecations help help_type help_default =
     (let self = \<lparr>v_type = type, v_name = name, v_parser = parser, v_validator = validator,
                  v_map = mp, v_default = dflt, v_deprecations = deprecations,
                  v_help = help, v_help_type = help_type, v_help_default = help_default\<rparr>
      in case type of
           TUnion args \<Rightarrow>
             if \<not> default_isinstance_any dflt args then Inl TypeError else Inr self
         | _ \<Rightarrow>
             if dflt \<noteq> NoDefault \<and> \<not> default_isinstance dflt type then Inl TypeError
             else Inr self)"

text \<open>
  The part of an \<open>Env\<close> instance a variable reads: its source and the class attributes
  \<open>__truthy__\<close>, \<open>__item_separator__\<close> and \<open>__value_separator__\<close>.
\<close>

record env =
  source :: "(string \<times> string) list"
  truthy :: "string list"
  item_separator :: string
  value_separator :: string

text \<open>\<open>source.get(key)\<close>.\<close>

definition source_get :: "(string \<times> string) list \<Rightarrow> string \<Rightarrow> string option" where
  "source_get src key = map_of src key"

text \<open>\<open>raw.split(sep)\<close> and \<open>item.split(sep, 1)\<close>, with the error of an empty separator.\<close>

definition py_split :: "string \<Rightarrow> string \<Rightarrow> exc + string list" where
  "py_split raw sep = (if sep = [] then Inl ValueError else Inr (split_from sep [] raw))"

definition py_split_once :: "string \<Rightarrow> string \<Rightarrow> exc + string list" where
  "py_split_once item sep =
     (if sep = [] then Inl ValueError else Inr (split_once_from sep [] item))"

text \<open>
  \<open>list(map(f, collection))\<close> and \<open>tuple(...)\<close> call \<open>f\<close> on the elements from left to
  right; \<open>set(...)\<close> hashes each result before it asks for the next. The first exception
  ends the construction.
\<close>

fun map_items :: "(string \<Rightarrow> exc + pyval) \<Rightarrow> string list \<Rightarrow> exc + pyval list" where
  "map_items f [] = Inr []"
| "map_items f (x # xs) =
     (case f x of
        Inl e \<Rightarrow> Inl e
      | Inr v \<Rightarrow> (case map_items f xs of Inl e \<Rightarrow> Inl e | Inr vs \<Rightarrow> Inr (v # vs)))"

fun set_items :: "(string \<Rightarrow> exc + pyval) \<Rightarrow> string list \<Rightarrow> pyval list \<Rightarrow> exc + pyval list" where
  "set_items f [] acc = Inr acc"
| "set_items f (x # xs) acc =
     (case f x of
        Inl e \<Rightarrow> Inl e
      | Inr v \<Rightarrow> if \<not> hashable v then Inl TypeError else set_items f xs (set_add acc v))"

text \<open>
  The function applied to each element of a collection: without a \<open>map\<close> the element
  itself, a string.
\<close>

fun item_fn :: "map_fn option \<Rightarrow> string \<Rightarrow> exc + pyval" where
  "item_fn None x = Inr (VStr x)"
| "item_fn (Some (MapItem f)) x = f x"
| "item_fn (Some (MapPair g)) x = Inl TypeError"

text \<open>
  \<open>self.type(collection if self.map is None else map(self.map, collection))\<close> for
  \<open>self.type\<close> one of \<open>list\<close>, \<open>tuple\<close>, \<open>set\<close>.
\<close>

definition make_collection :: "pytype \<Rightarrow> map_fn option \<Rightarrow> string list \<Rightarrow> exc + pyval" where
  "make_collection t mp collection =
     (if t = TList then
        (case map_items (item_fn mp) collection of Inl e \<Rightarrow> Inl e | Inr vs \<Rightarrow> Inr (VList vs))
      else if t = TTuple then
        (case map_items (item_fn mp) collection of Inl e \<Rightarrow> Inl e | Inr vs \<Rightarrow> Inr (VTuple vs))
      else
        (case set_items (item_fn mp) collection [] of Inl e \<Rightarrow> Inl e | Inr vs \<Rightarrow> Inr (VSet vs)))"

text \<open>
  \<open>dict(_.split(value_separator, 1) for _ in items)\<close>: every item has to split into two
  strings (a ValueError otherwise); a key seen again takes the new value.
\<close>

fun dict_from_items ::
  "string \<Rightarrow> string list \<Rightarrow> (string \<times> string) list \<Rightarrow> exc + (string \<times> string) list" where
  "dict_from_items vsep [] d = Inr d"
| "dict_from_items vsep (item # items) d =
     (case py_split_once item vsep of
        Inl e \<Rightarrow> Inl e
      | Inr kv \<Rightarrow>
          if length kv = 2 then dict_from_items vsep items (dict_setitem (=) d (kv ! 0) (kv ! 1))
          else Inl ValueError)"

text \<open>\<open>dict(self.map(*_) for _ in d.items())\<close>: the new keys have to be hashable.\<close>

fun pair_fn :: "map_fn \<Rightarrow> string \<Rightarrow> string \<Rightarrow> exc + (pyval \<times> pyval)" where
  "pair_fn (MapPair g) k v = g k v"
| "pair_fn (MapItem f) k v = Inl TypeError"

fun dict_map_items ::
  "map_fn \<Rightarrow> (string \<times> string) list \<Rightarrow> (pyval \<times> pyval) list \<Rightarrow> exc + (pyval \<times> pyval) list" where
  "dict_map_items m [] d = Inr d"
| "dict_map_items m ((k, v) # items) d =
     (case pair_fn m k v of
        Inl e \<Rightarrow> Inl e
      | Inr (k', v') \<Rightarrow>
          if \<not> hashable k' then Inl TypeError
          else dict_map_items m items (dict_setitem py_eq d k' v'))"

definition str_items :: "(string \<times> string) list \<Rightarrow> (pyval \<times> pyval) list" where
  "str_items d = map (\<lambda>(k, v). (VStr k, VStr v)) d"

definition make_dict :: "map_fn option \<Rightarrow> string \<Rightarrow> string list \<Rightarrow> exc + pyval" where
  "make_dict mp vsep items =
     (case dict_from_items vsep items [] of
        Inl e \<Rightarrow> Inl e
      | Inr d \<Rightarrow>
          (case mp of
             None \<Rightarrow> Inr (VDict (str_items d))
           | Some m \<Rightarrow>
               (case dict_map_items m d [] of Inl e \<Rightarrow> Inl e | Inr d' \<Rightarrow> Inr (VDict d'))))"

text \<open>
  The loop over the alternatives of a union: the first constructor that returns, or that
  raises anything but a TypeError, ends it; \<open>None\<close> means the loop ran to its end.
\<close>

fun try_union :: "pytype list \<Rightarrow> string \<Rightarrow> (exc + pyval) option" where
  "try_union [] raw = None"
| "try_union (t # ts) raw =
     (if call_type t raw = Inl TypeError then try_union ts raw
      else Some (call_type t raw))"

text \<open>
  The second half of \<open>EnvVariable._retrieve\<close>, from the parser on: what a raw string
  that was found becomes.
\<close>

definition coerce :: "env_variable \<Rightarrow> env \<Rightarrow> string \<Rightarrow> exc + pyval" where
  "coerce self env raw =
     (case v_parser self of
        Some parser \<Rightarrow>
          (case parser raw of
             Inl e \<Rightarrow> Inl e
           | Inr parsed \<Rightarrow>
               if \<not> check_type parsed (v_type self) then Inl TypeError else Inr parsed)
      | None \<Rightarrow>
          if v_type self = TBool then Inr (VBool (lower raw \<in> set (truthy env)))
          else if v_type self \<in> set [TList, TTuple, TSet] then
            (case py_split raw (item_separator env) of
               Inl e \<Rightarrow> Inl e
             | Inr collection \<Rightarrow> make_collection (v_type self) (v_map self) collection)
          else if v_type self = TDict then
            (case py_split raw (item_separator env) of
               Inl e \<Rightarrow> Inl e
             | Inr items \<Rightarrow> make_dict (v_map self) (value_separator env) items)
          else if check_type (VStr raw) (v_type self) then Inr (VStr raw)
          else
            (case v_type self of
               TUnion args \<Rightarrow>
                 (case try_union args raw of
                    Some r \<Rightarrow> r
                  | None \<Rightarrow> call_type (v_type self) raw)
             | _ \<Rightarrow> call_type (v_type self) raw))"

text \<open>
  The deprecation warning, and the loop over the deprecated names: it returns the
  warnings issued and the raw value it ends with.
\<close>

definition deprecation_message ::
  "string \<Rightarrow> string option \<Rightarrow> string option \<Rightarrow> string \<Rightarrow> string" where
  "deprecation_message full_deprecated_name deprecated_when removed_when full_name =
     full_deprecated_name @ '' has been deprecated''
     @ (case deprecated_when of Some w \<Rightarrow> '' in version '' @ w | None \<Rightarrow> [])
     @ (case removed_when of Some w \<Rightarrow> '' and will be removed in version '' @ w | None \<Rightarrow> [])
     @ ''. Use '' @ full_name @ '' instead''"

fun scan_deprecations ::
  "(string \<times> string) list \<Rightarrow> string \<Rightarrow> string \<Rightarrow> deprecation_info list \<Rightarrow>
   string list \<times> string option" where
  "scan_deprecations src prefix full_name [] = ([], None)"
| "scan_deprecations src prefix full_name ((name, deprecated_when, removed_when) # rest) =
     (let full_deprecated_name = prefix @ normalized name
      in case source_get src full_deprecated_name of
           Some raw \<Rightarrow>
             ([deprecation_message full_deprecated_name deprecated_when removed_when full_name],
              Some raw)
         | None \<Rightarrow> scan_deprecations src prefix full_name rest)"

text \<open>
  \<open>EnvVariable._retrieve(env, prefix)\<close>: the warnings issued, and the value or the
  exception.
\<close>

definition EnvVariable_retrieve ::
  "env_variable \<Rightarrow> env \<Rightarrow> string \<Rightarrow> string list \<times> (exc + pyval)" where
  "EnvVariable_retrieve self env prefix =
     (let full_name = prefix @ normalized (v_name self);
          raw0 = source_get (source env) full_name;
          (warned, raw) =
            (case v_deprecations self of
               Some (d # ds) \<Rightarrow>
                 if raw0 = None then scan_deprecations (source env) prefix full_name (d # ds)
                 else ([], raw0)
             | _ \<Rightarrow> ([], raw0))
      in (warned,
          case raw of
            None \<Rightarrow>
              (case v_default self of
                 Default d \<Rightarrow> Inr d
               | NoDefault \<Rightarrow> Inl (KeyError (full_name @ '' is not set'')))
          | Some r \<Rightarrow> coerce self env r))"

text \<open>\<open>EnvVariable.__call__(env, prefix)\<close>: the validator runs on what was retrieved.\<close>

definition EnvVariable_call ::
  "env_variable \<Rightarrow> env \<Rightarrow> string \<Rightarrow> string list \<times> (exc + pyval)" where
  "EnvVariable_call self env prefix =
     (let (warned, r) = EnvVariable_retrieve self env prefix
      in (warned,
          case r of
            Inl e \<Rightarrow> Inl e
          | Inr v \<Rightarrow>
              (case v_validator self of
                 None \<Rightarrow> Inr v
               | Some validator \<Rightarrow>
                   (case validator v of Some e \<Rightarrow> Inl e | None \<Rightarrow> Inr v))))"

section \<open>Configuration objects\<close>

text \<open>
  An \<open>Env\<close> instance: its source, the parent it was constructed with, its full prefix
  and the attributes set on it so far, in the order they were first set. The value of an
  attribute is a plain value or the instance of a nested class. An instance that is
  passed on (to a nested constructor, to a derivation) is passed as it stands at that
  moment. The names of the declared members are taken to differ from the attributes the
  constructor itself sets (\<open>source\<close>, \<open>parent\<close>, \<open>spec\<close>, \<open>_full_prefix\<close>).
\<close>

datatype inst =
  Inst (i_source: "(string \<times> string) list") (i_parent: "inst option")
       (i_full_prefix: string) (i_attrs: "(string \<times> attr) list")
and attr = AVal pyval | AEnv inst

text \<open>\<open>setattr(self, name, value)\<close>.\<close>

definition setattr :: "inst \<Rightarrow> string \<Rightarrow> attr \<Rightarrow> inst" where
  "setattr self name a =
     Inst (i_source self) (i_parent self) (i_full_prefix self)
          (dict_setitem (=) (i_attrs self) name a)"

record derived_variable =
  d_type :: pytype
  d_derivation :: "inst \<Rightarrow> exc + pyval"

text \<open>\<open>DerivedVariable.__call__(env)\<close>.\<close>

definition DerivedVariable_call :: "derived_variable \<Rightarrow> inst \<Rightarrow> exc + pyval" where
  "DerivedVariable_call self env =
     (case d_derivation self env of
        Inl e \<Rightarrow> Inl e
      | Inr v \<Rightarrow> if \<not> check_type v (d_type self) then Inl TypeError else Inr v)"

text \<open>
  A subclass of \<open>Env\<close>: the class attributes \<open>__prefix__\<close>, \<open>__item__\<close>, \<open>__truthy__\<close>,
  \<open>__item_separator__\<close>, \<open>__value_separator__\<close> as the class sees them, and the entries
  of its \<open>__dict__\<close> in order: variables, nested classes, derived variables and anything
  else (methods, the attributes above). Classes are values here: the constructor's move of
  a nested class to its \<open>__item__\<close> name changes the class object for later
  constructions, while the running one walks a copy of the entries made beforehand; only
  its effect on the name of the instance attribute is modelled.
\<close>

datatype member = MVar env_variable | MEnv schema | MDer derived_variable | MOther
and schema =
  Schema (c_prefix: string) (c_item: "string option") (c_truthy: "string list")
         (c_item_separator: string) (c_value_separator: string)
         (c_dict: "(string \<times> member) list")

text \<open>\<open>source or os.environ\<close>: \<open>None\<close> and the empty dict are falsy.\<close>

definition source_or_environ ::
  "(string \<times> string) list option \<Rightarrow> (string \<times> string) list \<Rightarrow> (string \<times> string) list" where
  "source_or_environ src environ =
     (case src of None \<Rightarrow> environ | Some s \<Rightarrow> if s = [] then environ else s)"

text \<open>The full prefix computed at the start of \<open>Env.__init__\<close>.\<close>

definition init_full_prefix :: "inst option \<Rightarrow> string \<Rightarrow> string" where
  "init_full_prefix parent prefix =
     (let p = (case parent of Some q \<Rightarrow> i_full_prefix q | None \<Rightarrow> []) @ normalized prefix
      in if p \<noteq> [] \<and> \<not> endswith_underscore p then p @ ''_'' else p)"

text \<open>The name a nested class is stored under.\<close>

definition item_name :: "schema \<Rightarrow> string \<Rightarrow> string" where
  "item_name e name =
     (case c_item e of
        Some it \<Rightarrow> if it \<noteq> name then it else name
      | None \<Rightarrow> name)"

text \<open>The second loop of \<open>Env.__init__\<close>, over the derived variables collected.\<close>

fun derived_loop :: "(string \<times> derived_variable) list \<Rightarrow> inst \<Rightarrow> exc + inst" where
  "derived_loop [] self = Inr self"
| "derived_loop ((n, d) # rest) self =
     (case DerivedVariable_call d self of
        Inl e \<Rightarrow> Inl e
      | Inr v \<Rightarrow> derived_loop rest (setattr self n (AVal v)))"

text \<open>
  \<open>Env.__init__(self, source, parent)\<close>, with the process environment \<open>os.environ\<close> as
  the first argument. The result holds the deprecation warnings issued and either the
  exception that ended the construction or the instance. \<open>members_loop\<close> is the first
  loop, over the entries of the class: it carries the instance and the list \<open>derived\<close>.
\<close>

fun Env_init ::
  "(string \<times> string) list \<Rightarrow> schema \<Rightarrow> (string \<times> string) list option \<Rightarrow> inst option \<Rightarrow>
   string list \<times> (exc + inst)"
and members_loop ::
  "(string \<times> string) list \<Rightarrow> (string \<times> string) list option \<Rightarrow> env \<Rightarrow>
   (string \<times> member) list \<Rightarrow> inst \<Rightarrow> (string \<times> derived_variable) list \<Rightarrow>
   string list \<times> (exc + inst \<times> (string \<times> derived_variable) list)" where
  "Env_init environ (Schema prefix item tr isep vsep entries) src parent =
     (let self = Inst (source_or_environ src environ) parent (init_full_prefix parent prefix) [];
          env = \<lparr>source = i_source self, truthy = tr, item_separator = isep,
                 value_separator = vsep\<rparr>
      in case members_loop environ src env entries self [] of
           (warned, Inl e) \<Rightarrow> (warned, Inl e)
         | (warned, Inr (self', derived)) \<Rightarrow> (warned, derived_loop derived self'))"
| "members_loop environ src env [] self derived = ([], Inr (self, derived))"
| "members_loop environ src env ((name, MVar v) # rest) self derived =
     (case EnvVariable_call v env (i_full_prefix self) of
        (warned, Inl e) \<Rightarrow> (warned, Inl e)
      | (warned, Inr val) \<Rightarrow>
          (case members_loop environ src env rest (setattr self name (AVal val)) derived of
             (warned', r) \<Rightarrow> (warned @ warned', r)))"
| "members_loop environ src env ((name, MEnv e) # rest) self derived =
     (case Env_init environ e src (Some self) of
        (warned, Inl err) \<Rightarrow> (warned, Inl err)
      | (warned, Inr child) \<Rightarrow>
          (case members_loop environ src env rest
                  (setattr self (item_name e name) (AEnv child)) derived of
             (warned', r) \<Rightarrow> (warned @ warned', r)))"
| "members_loop environ src env ((name, MDer d) # rest) self derived =
     members_loop environ src env rest self (derived @ [(name, d)])"
| "members_loop environ src env ((name, MOther) # rest) self derived =
     members_loop environ src env rest self derived"

section \<open>Help entries\<close>

text \<open>
  \<open>cls.__name__\<close> of a built-in class. Whether a \<open>typing.Union\<close> object has a \<open>__name__\<close>
  depends on the interpreter, and so does \<open>str(value)\<close> of a default: both are parameters
  of \<open>help_info\<close> (\<open>union_name\<close> returns the AttributeError where there is none).
\<close>

fun type_name :: "(pytype list \<Rightarrow> exc + string) \<Rightarrow> pytype \<Rightarrow> exc + string" where
  "type_name union_name TBool = Inr ''bool''"
| "type_name union_name TInt = Inr ''int''"
| "type_name union_name TStr = Inr ''str''"
| "type_name union_name TList = Inr ''list''"
| "type_name union_name TTuple = Inr ''tuple''"
| "type_name union_name TSet = Inr ''set''"
| "type_name union_name TDict = Inr ''dict''"
| "type_name union_name TNoneType = Inr ''NoneType''"
| "type_name union_name (TUnion args) = union_name args"

text \<open>\<open>str(v.default)\<close>: \<open>NoDefaultType.__str__\<close> returns the empty string.\<close>

fun str_default :: "(pyval \<Rightarrow> string) \<Rightarrow> default_value \<Rightarrow> string" where
  "str_default py_str NoDefault = []"
| "str_default py_str (Default v) = py_str v"

type_synonym help_entry = "string \<times> string \<times> string \<times> string"

text \<open>The entries of a class \<open>__dict__\<close> that are variables, and those that are classes.\<close>

fun declared_vars :: "(string \<times> member) list \<Rightarrow> env_variable list" where
  "declared_vars [] = []"
| "declared_vars ((k, MVar v) # rest) = v # declared_vars rest"
| "declared_vars (_ # rest) = declared_vars rest"

fun nested_classes :: "(string \<times> member) list \<Rightarrow> schema list" where
  "nested_classes [] = []"
| "nested_classes ((k, MEnv c) # rest) =
     (if k \<noteq> ''parent'' then c # nested_classes rest else nested_classes rest)"
| "nested_classes (_ # rest) = nested_classes rest"

text \<open>One entry, and \<open>add_entries(full_prefix, config)\<close> over the sorted variables.\<close>

definition help_entry_of ::
  "(pytype list \<Rightarrow> exc + string) \<Rightarrow> (pyval \<Rightarrow> string) \<Rightarrow> string \<Rightarrow> env_variable \<Rightarrow>
   exc + help_entry" where
  "help_entry_of union_name py_str full_prefix v =
     (let help_message = (case v_help v of Some h \<Rightarrow> strip h | None \<Rightarrow> []);
          help_message = (if help_message \<noteq> [] \<and> \<not> endswith_dot help_message
                          then help_message @ ''.'' else help_message);
          key = ''``'' @ full_prefix @ normalized (v_name v) @ ''``'';
          dflt = (case v_help_default v of
                    Some h \<Rightarrow> if h \<noteq> [] then h else str_default py_str (v_default v)
                  | None \<Rightarrow> str_default py_str (v_default v))
      in case (case v_help_type v of
                 Some h \<Rightarrow> if h \<noteq> [] then Inr h
                           else map_sum id (\<lambda>n. ''``'' @ n @ ''``'') (type_name union_name (v_type v))
               | None \<Rightarrow> map_sum id (\<lambda>n. ''``'' @ n @ ''``'') (type_name union_name (v_type v))) of
           Inl e \<Rightarrow> Inl e
         | Inr ty \<Rightarrow> Inr (key, ty, dflt, help_message))"

fun append_entries ::
  "(pytype list \<Rightarrow> exc + string) \<Rightarrow> (pyval \<Rightarrow> string) \<Rightarrow> string \<Rightarrow> env_variable list \<Rightarrow>
   help_entry list \<Rightarrow> exc + help_entry list" where
  "append_entries union_name py_str full_prefix [] entries = Inr entries"
| "append_entries union_name py_str full_prefix (v # vars) entries =
     (case help_entry_of union_name py_str full_prefix v of
        Inl e \<Rightarrow> Inl e
      | Inr entry \<Rightarrow> append_entries union_name py_str full_prefix vars (entries @ [entry]))"

definition add_entries ::
  "(pytype list \<Rightarrow> exc + string) \<Rightarrow> (pyval \<Rightarrow> string) \<Rightarrow> string \<Rightarrow> schema \<Rightarrow>
   help_entry list \<Rightarrow> exc + help_entry list" where
  "add_entries union_name py_str full_prefix config entries =
     append_entries union_name py_str full_prefix
       (sort_key v_name (declared_vars (c_dict config))) entries"

text \<open>The prefix \<open>help_info\<close> computes for a class from the prefix of the enclosing one.\<close>

definition help_prefix :: "string \<Rightarrow> schema \<Rightarrow> string" where
  "help_prefix full_prefix config =
     (let new_prefix = full_prefix @ normalized (c_prefix config)
      in if \<not> endswith_underscore new_prefix then new_prefix @ ''_'' else new_prefix)"

text \<open>The number of classes in a class and the classes nested in it.\<close>

fun classes :: "schema \<Rightarrow> nat"
and classes_in :: "(string \<times> member) list \<Rightarrow> nat" where
  "classes (Schema prefix item tr isep vsep entries) = Suc (classes_in entries)"
| "classes_in [] = 0"
| "classes_in ((k, MEnv c) # rest) = classes c + classes_in rest"
| "classes_in ((k, MVar v) # rest) = classes_in rest"
| "classes_in ((k, MDer d) # rest) = classes_in rest"
| "classes_in ((k, MOther) # rest) = classes_in rest"

definition subconfigs :: "string \<Rightarrow> schema \<Rightarrow> (string \<times> schema) list" where
  "subconfigs new_prefix config =
     sort_key (\<lambda>p. c_prefix (snd p)) (map (\<lambda>c. (new_prefix, c)) (nested_classes (c_dict config)))"

text \<open>
  The loop of \<open>help_info\<close>: \<open>configs.pop()\<close> takes the last pair of the list, and
  \<open>configs[0:0] = subconfigs\<close> puts the nested classes in front of it. The loop ends
  because every round replaces a class by the classes nested in it.
\<close>

lemma sum_nested_classes_le:
  "sum_list (map classes (nested_classes es)) \<le> classes_in es"
  by (induction es rule: nested_classes.induct) auto

lemma sum_list_insort_key:
  "sum_list (map f (insort_key k x xs)) = (f x :: nat) + sum_list (map f xs)"
  by (induction xs) auto

lemma sum_list_sort_key:
  "sum_list (map f (sort_key k xs)) = sum_list (map (f :: 'a \<Rightarrow> nat) xs)"
  by (induction xs) (auto simp: sum_list_insort_key)

lemma sum_subconfigs_less:
  "sum_list (map (\<lambda>p. classes (snd p)) (subconfigs p c)) < classes c"
proof -
  have "sum_list (map (\<lambda>p. classes (snd p)) (subconfigs p c))
      = sum_list (map (\<lambda>p. classes (snd p)) (map (\<lambda>c. (p, c)) (nested_classes (c_dict c))))"
    unfolding subconfigs_def by (rule sum_list_sort_key)
  also have "\<dots> = sum_list (map classes (nested_classes (c_dict c)))"
    by (simp add: comp_def)
  also have "\<dots> < classes c"
    using sum_nested_classes_le [of "c_dict c"] by (cases c) simp
  finally show ?thesis .
qed

lemma sum_butlast_last:
  "configs \<noteq> [] \<Longrightarrow>
   sum_list (map (\<lambda>p. classes (snd p)) configs)
     = sum_list (map (\<lambda>p. classes (snd p)) (butlast configs)) + classes (snd (last configs))"
  by (induction configs rule: rev_induct) auto

text \<open>\<open>entries\<close> is the list the closure \<open>add_entries\<close> appends to.\<close>

function help_loop ::
  "(pytype list \<Rightarrow> exc + string) \<Rightarrow> (pyval \<Rightarrow> string) \<Rightarrow> bool \<Rightarrow> (string \<times> schema) list \<Rightarrow>
   help_entry list \<Rightarrow> exc + help_entry list" where
  "help_loop union_name py_str recursive configs entries =
     (if configs = [] then Inr entries
      else
        (let full_prefix = fst (last configs);
             config = snd (last configs);
             new_prefix = help_prefix full_prefix config
         in case add_entries union_name py_str new_prefix config entries of
              Inl e \<Rightarrow> Inl e
            | Inr entries' \<Rightarrow>
                if \<not> recursive then Inr entries'
                else help_loop union_name py_str recursive
                       (subconfigs new_prefix config @ butlast configs) entries'))"
  by pat_completeness auto
termination
proof (relation "measure (\<lambda>(un, ps, r, configs, entries). sum_list (map (\<lambda>p. classes (snd p)) configs))")
  show "wf (measure (\<lambda>(un, ps, r, configs, entries). sum_list (map (\<lambda>p. classes (snd p)) configs)))"
    by simp
next
  fix union_name :: "pytype list \<Rightarrow> exc + string" and py_str :: "pyval \<Rightarrow> string"
    and recursive :: bool and configs :: "(string \<times> schema) list" and entries :: "help_entry list"
    and x xa xb and x2 :: "help_entry list"
  assume "configs \<noteq> []" and "xa = snd (last configs)"
  then show "((union_name, py_str, recursive, subconfigs xb xa @ butlast configs, x2),
              union_name, py_str, recursive, configs, entries)
        \<in> measure (\<lambda>(un, ps, r, configs, entries). sum_list (map (\<lambda>p. classes (snd p)) configs))"
    using sum_subconfigs_less [of xb xa] sum_butlast_last [of configs] by simp
qed

text \<open>\<open>Env.help_info(recursive)\<close> of the class \<open>cls\<close>.\<close>

definition Env_help_info ::
  "(pytype list \<Rightarrow> exc + string) \<Rightarrow> (pyval \<Rightarrow> string) \<Rightarrow> schema \<Rightarrow> bool \<Rightarrow> exc + help_entry list" where
  "Env_help_info union_name py_str cls recursive =
     help_loop union_name py_str recursive [([], cls)] []"

section \<open>Vocabulary of the statements\<close>

text \<open>
  \<open>sep.join(pieces)\<close>, to say what was split, and the two strings an item of a dict
  splits into.
\<close>

fun join :: "string \<Rightarrow> string list \<Rightarrow> string" where
  "join sep [] = []"
| "join sep [x] = x"
| "join sep (x # y # ys) = x @ sep @ join sep (y # ys)"

definition item_pair :: "string \<Rightarrow> string \<Rightarrow> string \<times> string" where
  "item_pair vsep item = (split_once_from vsep [] item ! 0, split_once_from vsep [] item ! 1)"

text \<open>The list of deprecations of a variable, empty where none was declared.\<close>

definition deprecations_of :: "env_variable \<Rightarrow> deprecation_info list" where
  "deprecations_of self = (case v_deprecations self of None \<Rightarrow> [] | Some ds \<Rightarrow> ds)"








section \<open>Example declarations\<close>

text \<open>
  The class attributes of \<open>Env\<close> itself (\<open>__truthy__\<close>, \<open>__item_separator__\<close>,
  \<open>__value_separator__\<close>) around a source, and a variable declared with a type and a
  name only.
\<close>

definition default_env :: "(string \<times> string) list \<Rightarrow> env" where
  "default_env src =
     \<lparr>source = src, truthy = [''1'', ''true'', ''yes'', ''on''],
      item_separator = '','', value_separator = '':''\<rparr>"

definition plain_var :: "pytype \<Rightarrow> string \<Rightarrow> env_variable" where
  "plain_var t name =
     \<lparr>v_type = t, v_name = name, v_parser = None, v_validator = None, v_map = None,
      v_default = NoDefault, v_deprecations = None, v_help = None, v_help_type = None,
      v_help_default = None\<rparr>"

text \<open>
  A port with the default 5 and a validator that accepts the numbers from 1024 on;
  variables of the types \<open>Union[int, str]\<close>, \<open>Union[None, int]\<close> and \<open>Union[int, list]\<close>,
  each with a default.
\<close>

definition port_validator :: "pyval \<Rightarrow> exc option" where
  "port_validator v = (case v of VInt n \<Rightarrow> if n < 1024 then Some ValueError else None | _ \<Rightarrow> Some TypeError)"

definition port_var :: env_variable where
  "port_var = plain_var TInt ''port'' \<lparr>v_validator := Some port_validator, v_default := Default (VInt 5)\<rparr>"

definition int_or_str_var :: env_variable where
  "int_or_str_var = plain_var (TUnion [TInt, TStr]) ''size'' \<lparr>v_default := Default (VInt 0)\<rparr>"

definition none_or_int_var :: env_variable where
  "none_or_int_var = plain_var (TUnion [TNoneType, TInt]) ''limit'' \<lparr>v_default := Default VNone\<rparr>"

definition int_or_list_var :: env_variable where
  "int_or_list_var = plain_var (TUnion [TInt, TList]) ''level'' \<lparr>v_default := Default (VInt 0)\<rparr>"

text \<open>
  A class with the prefix \<open>APP\<close> that nests, as \<open>db\<close>, a class with the prefix \<open>DB\<close>
  declaring the variable \<open>HOST\<close> as \<open>host\<close>.
\<close>

definition env_class :: "string \<Rightarrow> (string \<times> member) list \<Rightarrow> schema" where
  "env_class prefix entries =
     Schema prefix None [''1'', ''true'', ''yes'', ''on''] '','' '':'' entries"






text \<open>
  A class that keeps the empty \<open>__prefix__\<close> of \<open>Env\<close>, and a class \<open>app\<close> that nests the
  classes \<open>a\<close> and \<open>b\<close>, which nest \<open>a1\<close> and \<open>b1\<close>.
\<close>

definition flat_class :: schema where
  "flat_class = env_class [] [(''debug'', MVar (plain_var TBool ''debug''))]"

definition tree_class :: schema where
  "tree_class = env_class ''app''
     [(''x'', MVar (plain_var TStr ''x'')),
      (''a'', MEnv (env_class ''a''
         [(''y'', MVar (plain_var TStr ''y'')),
          (''a1'', MEnv (env_class ''a1'' [(''z'', MVar (plain_var TStr ''z''))]))])),
      (''b'', MEnv (env_class ''b''
         [(''y'', MVar (plain_var TStr ''y'')),
          (''b1'', MEnv (env_class ''b1'' [(''z'', MVar (plain_var TStr ''z''))]))]))]"

section \<open>Properties of retrieval\<close>

text \<open>A key that is present is coerced, and no deprecated name is looked at.\<close>

lemma retrieve_present:
  "source_get (source env) (prefix @ normalized (v_name self)) = Some raw \<Longrightarrow>
   EnvVariable_retrieve self env prefix = ([], coerce self env raw)"
  by (simp add: EnvVariable_retrieve_def Let_def split: option.splits list.splits)

text \<open>The loop over the deprecated names stops at the first one that is present.\<close>

lemma scan_deprecations_hit:
  assumes "\<forall>(n, a, b) \<in> set pre. source_get src (prefix @ normalized n) = None"
    and "source_get src (prefix @ normalized name) = Some raw"
  shows "scan_deprecations src prefix full_name (pre @ (name, dw, rw) # post) =
           ([deprecation_message (prefix @ normalized name) dw rw full_name], Some raw)"
  using assms by (induction pre) auto

lemma scan_deprecations_miss:
  assumes "\<forall>(n, a, b) \<in> set ds. source_get src (prefix @ normalized n) = None"
  shows "scan_deprecations src prefix full_name ds = ([], None)"
  using assms by (induction ds) auto

text \<open>A key that is absent leaves the raw value to the deprecated names.\<close>

lemma retrieve_absent:
  assumes "source_get (source env) (prefix @ normalized (v_name self)) = None"
    and "scan_deprecations (source env) prefix (prefix @ normalized (v_name self))
           (deprecations_of self) = (warned, raw)"
  shows "EnvVariable_retrieve self env prefix =
           (warned,
            case raw of
              None \<Rightarrow>
                (case v_default self of
                   Default d \<Rightarrow> Inr d
                 | NoDefault \<Rightarrow>
                     Inl (KeyError ((prefix @ normalized (v_name self)) @ '' is not set'')))
            | Some r \<Rightarrow> coerce self env r)"
  using assms
  by (auto simp: EnvVariable_retrieve_def Let_def deprecations_of_def
           split: option.splits list.splits)

text \<open>\<open>__call__\<close> in terms of what \<open>_retrieve\<close> returned.\<close>

lemma call_of_retrieve:
  "EnvVariable_retrieve self env prefix = (warned, r) \<Longrightarrow>
   EnvVariable_call self env prefix =
     (warned,
      case r of
        Inl e \<Rightarrow> Inl e
      | Inr v \<Rightarrow>
          (case v_validator self of
             None \<Rightarrow> Inr v
           | Some validator \<Rightarrow> (case validator v of Some e \<Rightarrow> Inl e | None \<Rightarrow> Inr v)))"
  by (simp add: EnvVariable_call_def)

subsection \<open>Declaring a variable\<close>

lemma default_isinstance_any_NoDefault: "\<not> default_isinstance_any NoDefault args"
  by (induction args) (simp_all add: default_isinstance_any_def)

text \<open>
  Claim C7 says that declaring a variable raises the TypeError exactly when the default
  is not the sentinel and does not satisfy the type, so that a declaration without a
  default always succeeds. The branch of \<open>EnvVariable.__init__\<close> for a union type tests
  \<open>isinstance(default, type.__args__)\<close> without asking first whether the default is the
  sentinel, as the branch for the other types does: every declaration of a union-typed
  variable without a default raises the TypeError, \<open>Union[int, str]\<close> included, while the
  same declaration with the type \<open>int\<close> succeeds.
\<close>

theorem EnvVariable_init_union_without_default:
  "EnvVariable_init (TUnion args) name parser validator mp NoDefault deprecations
     help help_type help_default = Inl TypeError
   \<and> EnvVariable_init (TUnion [TInt, TStr]) ''foo'' None None None NoDefault None
     None None None = Inl TypeError
   \<and> EnvVariable_init TInt ''foo'' None None None NoDefault None None None None
     = Inr (plain_var TInt ''foo'')"
  by (simp add: EnvVariable_init_def default_isinstance_any_NoDefault plain_var_def)

subsection \<open>Union types\<close>

lemma coerce_union:
  assumes "v_parser self = None" and "v_type self = TUnion args"
  shows "coerce self env raw =
           (if isinstance_any (VStr raw) args then Inr (VStr raw)
            else case try_union args raw of Some r \<Rightarrow> r | None \<Rightarrow> Inl TypeError)"
  using assms by (simp add: coerce_def split: option.splits)

lemma try_union_first:
  assumes "\<forall>u \<in> set pre. call_type u raw = Inl TypeError"
    and "call_type t raw \<noteq> Inl TypeError"
  shows "try_union (pre @ t # post) raw = Some (call_type t raw)"
  using assms by (induction pre) simp_all

lemma try_union_none:
  assumes "\<forall>u \<in> set args. call_type u raw = Inl TypeError"
  shows "try_union args raw = None"
  using assms by (induction args) simp_all

lemma isinstance_any_str: "TStr \<in> set args \<Longrightarrow> isinstance_any (VStr raw) args"
proof -
  assume "TStr \<in> set args"
  moreover have "isinstance (VStr raw) TStr" by simp
  ultimately show ?thesis unfolding isinstance_any_def list_ex_iff by blast
qed

text \<open>
  Claim C1 says that a variable of type \<open>Union[int, str]\<close> turns the raw string \<open>"42"\<close>
  into the integer 42. Before \<open>_retrieve\<close> reaches its loop over the alternatives it
  returns the raw string itself when \<open>_check_type(raw, self.type)\<close> holds, and a string is
  an instance of the alternative \<open>str\<close>: the variable declared above (with a default, as a
  union-typed variable has to be) is retrieved as the string \<open>"42"\<close>. The claim also
  says that the first alternative that parses is the result: the loop passes over a
  TypeError only, so for \<open>Union[int, list]\<close> and the raw string \<open>"a,b"\<close> the ValueError
  of \<open>int\<close> ends the retrieval, although \<open>list("a,b")\<close> returns.
\<close>

theorem union_int_str_counterexample:
  "EnvVariable_init (TUnion [TInt, TStr]) ''size'' None None None (Default (VInt 0)) None
     None None None = Inr int_or_str_var
   \<and> EnvVariable_retrieve int_or_str_var (default_env [(''SIZE'', ''42'')]) []
     = ([], Inr (VStr ''42''))
   \<and> EnvVariable_call int_or_str_var (default_env [(''SIZE'', ''42'')]) []
     = ([], Inr (VStr ''42''))
   \<and> call_type TInt ''42'' = Inr (VInt 42)
   \<and> EnvVariable_retrieve int_or_list_var (default_env [(''LEVEL'', ''a,b'')]) []
     = ([], Inl ValueError)
   \<and> call_type TList ''a,b'' = Inr (VList [VStr ''a'', VStr '','', VStr ''b''])"
proof -
  have "call_type TInt ''42'' = Inr (VInt 42)"
    by code_simp
  moreover have "EnvVariable_retrieve int_or_list_var (default_env [(''LEVEL'', ''a,b'')]) []
     = ([], Inl ValueError)"
    by code_simp
  moreover have "call_type TList ''a,b'' = Inr (VList [VStr ''a'', VStr '','', VStr ''b''])"
    by (simp add: chars_of_def)
  moreover have "EnvVariable_init (TUnion [TInt, TStr]) ''size'' None None None
      (Default (VInt 0)) None None None None = Inr int_or_str_var"
    by (simp add: EnvVariable_init_def int_or_str_var_def plain_var_def
          default_isinstance_any_def)
  moreover have "source_get (source (default_env [(''SIZE'', ''42'')]))
      ([] @ normalized (v_name int_or_str_var)) = Some ''42''"
    by code_simp
  then have r: "EnvVariable_retrieve int_or_str_var (default_env [(''SIZE'', ''42'')]) []
      = ([], Inr (VStr ''42''))"
    using retrieve_present [of "default_env [(''SIZE'', ''42'')]" "[]" int_or_str_var "''42''"]
    by (simp add: coerce_def int_or_str_var_def plain_var_def isinstance_any_def)
  moreover have "EnvVariable_call int_or_str_var (default_env [(''SIZE'', ''42'')]) []
      = ([], Inr (VStr ''42''))"
    using call_of_retrieve [OF r] by (simp add: int_or_str_var_def plain_var_def)
  ultimately show ?thesis by simp
qed

text \<open>
  Claim C1 as amended. For a variable of a union type without a parser whose key is
  present: if the raw string is an instance of one of the alternatives, as it is whenever
  \<open>str\<close> is among them, the raw string itself is the value and no constructor is called.
  Otherwise the constructors of the alternatives are called in declared order: the value
  of the first one that returns is the result, provided each alternative before it raised
  a TypeError, and if all raise a TypeError, so does the retrieval.
\<close>

theorem union_coercion:
  assumes "v_parser self = None" and "v_type self = TUnion args"
    and "source_get (source env) (prefix @ normalized (v_name self)) = Some raw"
  shows "(TStr \<in> set args \<or> isinstance_any (VStr raw) args \<longrightarrow>
            EnvVariable_retrieve self env prefix = ([], Inr (VStr raw)))
       \<and> (\<not> isinstance_any (VStr raw) args \<and> args = pre @ t # post
            \<and> (\<forall>u \<in> set pre. call_type u raw = Inl TypeError)
            \<and> call_type t raw = Inr v \<longrightarrow>
            EnvVariable_retrieve self env prefix = ([], Inr v))
       \<and> (\<not> isinstance_any (VStr raw) args
            \<and> (\<forall>u \<in> set args. call_type u raw = Inl TypeError) \<longrightarrow>
            EnvVariable_retrieve self env prefix = ([], Inl TypeError))"
proof -
  have r: "EnvVariable_retrieve self env prefix = ([], coerce self env raw)"
    by (rule retrieve_present [OF assms(3)])
  note c = coerce_union [OF assms(1,2), of env raw]
  have one: "EnvVariable_retrieve self env prefix = ([], Inr (VStr raw))"
    if "TStr \<in> set args \<or> isinstance_any (VStr raw) args"
  proof -
    from that have "isinstance_any (VStr raw) args"
      using isinstance_any_str [of args raw] by blast
    then show ?thesis unfolding r c by simp
  qed
  have two: "EnvVariable_retrieve self env prefix = ([], Inr v)"
    if h: "\<not> isinstance_any (VStr raw) args \<and> args = pre @ t # post
        \<and> (\<forall>u \<in> set pre. call_type u raw = Inl TypeError)
        \<and> call_type t raw = Inr v"
  proof -
    from h have "call_type t raw \<noteq> Inl TypeError"
      by simp
    with h have "try_union (pre @ t # post) raw = Some (call_type t raw)"
      by (intro try_union_first) blast+
    with h have "try_union args raw = Some (Inr v)"
      by simp
    moreover from h have "\<not> isinstance_any (VStr raw) args" by blast
    ultimately show ?thesis unfolding r c by simp
  qed
  have three: "EnvVariable_retrieve self env prefix = ([], Inl TypeError)"
    if h: "\<not> isinstance_any (VStr raw) args
        \<and> (\<forall>u \<in> set args. call_type u raw = Inl TypeError)"
  proof -
    from h have "try_union args raw = None"
      by (intro try_union_none) blast
    moreover from h have "\<not> isinstance_any (VStr raw) args" by blast
    ultimately show ?thesis unfolding r c by simp
  qed
  from one two three show ?thesis by blast
qed

theorem union_coercion_witness:
  "EnvVariable_retrieve none_or_int_var (default_env [(''LIMIT'', ''42'')]) []
     = ([], Inr (VInt 42))
   \<and> EnvVariable_retrieve int_or_str_var (default_env [(''SIZE'', ''42'')]) []
     = ([], Inr (VStr ''42''))
   \<and> EnvVariable_retrieve (plain_var (TUnion [TNoneType]) ''nothing'' \<lparr>v_default := Default VNone\<rparr>)
       (default_env [(''NOTHING'', ''42'')]) [] = ([], Inl TypeError)"
proof -
  let ?n = "plain_var (TUnion [TNoneType]) ''nothing'' \<lparr>v_default := Default VNone\<rparr>"
  have iv: "call_type TInt ''42'' = Inr (VInt 42)"
    by code_simp
  have p: "v_parser none_or_int_var = None" "v_type none_or_int_var = TUnion ([TNoneType] @ TInt # [])"
    "v_parser int_or_str_var = None" "v_type int_or_str_var = TUnion [TInt, TStr]"
    "v_parser ?n = None" "v_type ?n = TUnion [TNoneType]"
    by (simp_all add: none_or_int_var_def int_or_str_var_def plain_var_def)
  have s: "source_get (source (default_env [(''LIMIT'', ''42'')]))
             ([] @ normalized (v_name none_or_int_var)) = Some ''42''"
    "source_get (source (default_env [(''SIZE'', ''42'')]))
             ([] @ normalized (v_name int_or_str_var)) = Some ''42''"
    "source_get (source (default_env [(''NOTHING'', ''42'')]))
             ([] @ normalized (v_name ?n)) = Some ''42''"
    by code_simp+
  have first: "EnvVariable_retrieve none_or_int_var (default_env [(''LIMIT'', ''42'')]) []
      = ([], Inr (VInt 42))"
    using union_coercion [OF p(1) p(2) s(1), of "[TNoneType]" TInt "[]" "VInt 42"] iv
    by (simp add: isinstance_any_def)
  have third: "EnvVariable_retrieve int_or_str_var (default_env [(''SIZE'', ''42'')]) []
      = ([], Inr (VStr ''42''))"
    using union_coercion [OF p(3) p(4) s(2), of "[]" TInt "[TStr]"]
    by simp
  have fourth: "EnvVariable_retrieve ?n (default_env [(''NOTHING'', ''42'')]) []
      = ([], Inl TypeError)"
    using union_coercion [OF p(5) p(6) s(3), of "[]" TNoneType "[]"]
    by (simp add: isinstance_any_def)
  from first third fourth show ?thesis by simp
qed

subsection \<open>Absent keys and defaults\<close>

text \<open>
  Claim C2 says that a default returned for an absent key passes neither the coercion
  nor the validator. \<open>EnvVariable.__call__\<close>, which the constructor of \<open>Env\<close> calls, runs
  the validator on whatever \<open>_retrieve\<close> returned: for the port declared above, with the
  default 5 and a source without its key, \<open>_retrieve\<close> returns 5 and \<open>__call__\<close> raises the
  validator's ValueError.
\<close>

theorem default_not_validated_counterexample:
  "source_get (source (default_env [(''HOME'', ''/root'')])) ([] @ normalized (v_name port_var)) = None
   \<and> deprecations_of port_var = []
   \<and> v_default port_var = Default (VInt 5)
   \<and> EnvVariable_retrieve port_var (default_env [(''HOME'', ''/root'')]) [] = ([], Inr (VInt 5))
   \<and> EnvVariable_call port_var (default_env [(''HOME'', ''/root'')]) [] = ([], Inl ValueError)"
proof -
  have "source_get (source (default_env [(''HOME'', ''/root'')])) ([] @ normalized (v_name port_var))
      = None"
    by code_simp
  moreover have "deprecations_of port_var = []" and "v_default port_var = Default (VInt 5)"
    by (simp_all add: port_var_def plain_var_def deprecations_of_def)
  moreover have "EnvVariable_retrieve port_var (default_env [(''HOME'', ''/root'')]) []
      = ([], Inr (VInt 5))"
    by code_simp
  moreover have "EnvVariable_call port_var (default_env [(''HOME'', ''/root'')]) []
      = ([], Inl ValueError)"
    by code_simp
  ultimately show ?thesis by simp
qed

text \<open>
  Claim C2 as amended. When the key of a variable and all its deprecated names are absent,
  \<open>_retrieve\<close> returns the default as it is, with no warning and without coercing it, or
  raises the KeyError that names the key when there is no default; \<open>__call__\<close> then still
  runs the validator, where there is one, on the default, and its exception is the
  result. When a raw value is present, under the key or under a deprecated name, and its
  coercion fails, that exception is the result, whatever the default.
\<close>

theorem absent_key_default:
  "(source_get (source env) (prefix @ normalized (v_name self)) = None
      \<and> (\<forall>(n, a, b) \<in> set (deprecations_of self).
            source_get (source env) (prefix @ normalized n) = None)
    \<longrightarrow> EnvVariable_retrieve self env prefix =
          ([], case v_default self of
                 Default d \<Rightarrow> Inr d
               | NoDefault \<Rightarrow>
                   Inl (KeyError ((prefix @ normalized (v_name self)) @ '' is not set'')))
        \<and> EnvVariable_call self env prefix =
          ([], case v_default self of
                 Default d \<Rightarrow>
                   (case v_validator self of
                      None \<Rightarrow> Inr d
                    | Some validator \<Rightarrow>
                        (case validator d of Some e \<Rightarrow> Inl e | None \<Rightarrow> Inr d))
               | NoDefault \<Rightarrow>
                   Inl (KeyError ((prefix @ normalized (v_name self)) @ '' is not set''))))
   \<and> (source_get (source env) (prefix @ normalized (v_name self)) = Some raw
      \<and> coerce self env raw = Inl e
    \<longrightarrow> EnvVariable_call self env prefix = ([], Inl e))
   \<and> (source_get (source env) (prefix @ normalized (v_name self)) = None
      \<and> v_deprecations self = Some (pre @ (name, deprecated_when, removed_when) # post)
      \<and> (\<forall>(n, a, b) \<in> set pre. source_get (source env) (prefix @ normalized n) = None)
      \<and> source_get (source env) (prefix @ normalized name) = Some raw
      \<and> coerce self env raw = Inl e
    \<longrightarrow> snd (EnvVariable_call self env prefix) = Inl e)"
proof (intro conjI impI)
  assume a: "source_get (source env) (prefix @ normalized (v_name self)) = None
      \<and> (\<forall>(n, a, b) \<in> set (deprecations_of self).
            source_get (source env) (prefix @ normalized n) = None)"
  then have "scan_deprecations (source env) prefix (prefix @ normalized (v_name self))
      (deprecations_of self) = ([], None)"
    by (intro scan_deprecations_miss) simp
  from retrieve_absent [OF _ this] a
  have r: "EnvVariable_retrieve self env prefix =
          ([], case v_default self of
                 Default d \<Rightarrow> Inr d
               | NoDefault \<Rightarrow>
                   Inl (KeyError ((prefix @ normalized (v_name self)) @ '' is not set'')))"
    by simp
  then show "EnvVariable_retrieve self env prefix =
          ([], case v_default self of
                 Default d \<Rightarrow> Inr d
               | NoDefault \<Rightarrow>
                   Inl (KeyError ((prefix @ normalized (v_name self)) @ '' is not set'')))" .
  show "EnvVariable_call self env prefix =
          ([], case v_default self of
                 Default d \<Rightarrow>
                   (case v_validator self of
                      None \<Rightarrow> Inr d
                    | Some validator \<Rightarrow>
                        (case validator d of Some e \<Rightarrow> Inl e | None \<Rightarrow> Inr d))
               | NoDefault \<Rightarrow>
                   Inl (KeyError ((prefix @ normalized (v_name self)) @ '' is not set'')))"
    unfolding call_of_retrieve [OF r] by (cases "v_default self") simp_all
next
  assume "source_get (source env) (prefix @ normalized (v_name self)) = Some raw
      \<and> coerce self env raw = Inl e"
  then have "EnvVariable_retrieve self env prefix = ([], Inl e)"
    using retrieve_present [of env prefix self raw] by simp
  from call_of_retrieve [OF this]
  show "EnvVariable_call self env prefix = ([], Inl e)" by simp
next
  assume a: "source_get (source env) (prefix @ normalized (v_name self)) = None
      \<and> v_deprecations self = Some (pre @ (name, deprecated_when, removed_when) # post)
      \<and> (\<forall>(n, a, b) \<in> set pre. source_get (source env) (prefix @ normalized n) = None)
      \<and> source_get (source env) (prefix @ normalized name) = Some raw
      \<and> coerce self env raw = Inl e"
  then have ds: "deprecations_of self = pre @ (name, deprecated_when, removed_when) # post"
    by (simp add: deprecations_of_def)
  have "scan_deprecations (source env) prefix (prefix @ normalized (v_name self))
          (deprecations_of self) =
        ([deprecation_message (prefix @ normalized name) deprecated_when removed_when
            (prefix @ normalized (v_name self))], Some raw)"
    unfolding ds using a by (intro scan_deprecations_hit) simp_all
  from retrieve_absent [OF _ this] a
  have "EnvVariable_retrieve self env prefix =
      ([deprecation_message (prefix @ normalized name) deprecated_when removed_when
            (prefix @ normalized (v_name self))], Inl e)"
    by simp
  from call_of_retrieve [OF this]
  show "snd (EnvVariable_call self env prefix) = Inl e" by simp
qed

theorem absent_key_default_witness:
  "EnvVariable_call (plain_var TInt ''workers'' \<lparr>v_default := Default (VInt 5)\<rparr>)
     (default_env [(''OTHER'', ''1'')]) [] = ([], Inr (VInt 5))
   \<and> EnvVariable_call (plain_var TInt ''workers'') (default_env [(''OTHER'', ''1'')]) []
     = ([], Inl (KeyError ''WORKERS is not set''))
   \<and> EnvVariable_call (plain_var TInt ''workers'' \<lparr>v_default := Default (VInt 5)\<rparr>)
     (default_env [(''WORKERS'', ''many'')]) [] = ([], Inl ValueError)
   \<and> snd (EnvVariable_call
       (plain_var TInt ''workers''
          \<lparr>v_default := Default (VInt 5), v_deprecations := Some [(''threads'', None, None)]\<rparr>)
       (default_env [(''THREADS'', ''many'')]) []) = Inl ValueError"
proof -
  let ?v = "plain_var TInt ''workers'' \<lparr>v_default := Default (VInt 5)\<rparr>"
  let ?u = "plain_var TInt ''workers''"
  let ?w = "plain_var TInt ''workers''
          \<lparr>v_default := Default (VInt 5), v_deprecations := Some [(''threads'', None, None)]\<rparr>"
  let ?e = "default_env [(''OTHER'', ''1'')]"
  let ?f = "default_env [(''WORKERS'', ''many'')]"
  let ?g = "default_env [(''THREADS'', ''many'')]"
  have n: "normalized ''workers'' = ''WORKERS''" "normalized ''threads'' = ''THREADS''"
    by code_simp+
  have names: "v_name ?v = ''workers''" "v_name ?u = ''workers''" "v_name ?w = ''workers''"
    by (simp_all add: plain_var_def)
  have dv: "v_default ?v = Default (VInt 5)" "v_validator ?v = None" "deprecations_of ?v = []"
    and du: "v_default ?u = NoDefault" "deprecations_of ?u = []"
    and dw: "v_deprecations ?w = Some ([] @ (''threads'', None, None) # [])"
    by (simp_all add: plain_var_def deprecations_of_def)
  have bad: "coerce ?v ?f ''many'' = Inl ValueError" "coerce ?w ?g ''many'' = Inl ValueError"
    by code_simp+
  have absent: "source_get (source ?e) ([] @ normalized ''workers'') = None"
    and present: "source_get (source ?f) ([] @ normalized ''workers'') = Some ''many''"
    and moved: "source_get (source ?g) ([] @ normalized ''workers'') = None"
       "source_get (source ?g) ([] @ normalized ''threads'') = Some ''many''"
    by (simp_all add: n default_env_def source_get_def)
  have first: "EnvVariable_call ?v ?e [] = ([], Inr (VInt 5))"
    using absent_key_default [of ?e "[]" ?v] absent
    by (simp add: names dv)
  have second: "EnvVariable_call ?u ?e [] = ([], Inl (KeyError ''WORKERS is not set''))"
    using absent_key_default [of ?e "[]" ?u] absent
    by (simp add: names du n)
  have third: "EnvVariable_call ?v ?f [] = ([], Inl ValueError)"
    using absent_key_default [of ?f "[]" ?v "''many''" ValueError] present bad
    by (simp add: names)
  have fourth: "snd (EnvVariable_call ?w ?g []) = Inl ValueError"
    using absent_key_default
      [of ?g "[]" ?w "''many''" ValueError "[]" "''threads''" None None "[]"] moved bad dw
    by (simp add: names)
  from first second third fourth show ?thesis by simp
qed

subsection \<open>Deprecated names\<close>

text \<open>
  Claim C3. When the key of a variable is absent and, in its list of deprecations, the
  names before some entry are absent as well while the name of that entry is present, the
  value under that name is the raw value that is coerced, and exactly one warning is
  issued: it names the deprecated key, the version it was deprecated in and the version it
  will be removed in (each where given) and the key to use instead. What comes later in
  the list plays no part. When the key itself is present, its value is coerced and no
  warning is issued, whatever the deprecated names hold.
\<close>

theorem deprecated_alias_resolution:
  "(source_get (source env) (prefix @ normalized (v_name self)) = None
      \<and> v_deprecations self = Some (pre @ (name, deprecated_when, removed_when) # post)
      \<and> (\<forall>(n, a, b) \<in> set pre. source_get (source env) (prefix @ normalized n) = None)
      \<and> source_get (source env) (prefix @ normalized name) = Some raw
    \<longrightarrow> EnvVariable_retrieve self env prefix =
          ([(prefix @ normalized name) @ '' has been deprecated''
             @ (case deprecated_when of Some w \<Rightarrow> '' in version '' @ w | None \<Rightarrow> [])
             @ (case removed_when of
                  Some w \<Rightarrow> '' and will be removed in version '' @ w
                | None \<Rightarrow> [])
             @ ''. Use '' @ (prefix @ normalized (v_name self)) @ '' instead''],
           coerce self env raw))
   \<and> (source_get (source env) (prefix @ normalized (v_name self)) = Some raw
    \<longrightarrow> EnvVariable_retrieve self env prefix = ([], coerce self env raw))"
proof (intro conjI impI)
  assume a: "source_get (source env) (prefix @ normalized (v_name self)) = None
      \<and> v_deprecations self = Some (pre @ (name, deprecated_when, removed_when) # post)
      \<and> (\<forall>(n, a, b) \<in> set pre. source_get (source env) (prefix @ normalized n) = None)
      \<and> source_get (source env) (prefix @ normalized name) = Some raw"
  then have ds: "deprecations_of self = pre @ (name, deprecated_when, removed_when) # post"
    by (simp add: deprecations_of_def)
  have "scan_deprecations (source env) prefix (prefix @ normalized (v_name self))
          (deprecations_of self) =
        ([deprecation_message (prefix @ normalized name) deprecated_when removed_when
            (prefix @ normalized (v_name self))], Some raw)"
    unfolding ds using a by (intro scan_deprecations_hit) simp_all
  from retrieve_absent [OF _ this] a
  show "EnvVariable_retrieve self env prefix =
          ([(prefix @ normalized name) @ '' has been deprecated''
             @ (case deprecated_when of Some w \<Rightarrow> '' in version '' @ w | None \<Rightarrow> [])
             @ (case removed_when of
                  Some w \<Rightarrow> '' and will be removed in version '' @ w
                | None \<Rightarrow> [])
             @ ''. Use '' @ (prefix @ normalized (v_name self)) @ '' instead''],
           coerce self env raw)"
    by (simp add: deprecation_message_def)
next
  assume "source_get (source env) (prefix @ normalized (v_name self)) = Some raw"
  then show "EnvVariable_retrieve self env prefix = ([], coerce self env raw)"
    by (rule retrieve_present)
qed

theorem deprecated_alias_resolution_witness:
  "EnvVariable_retrieve
     (plain_var TStr ''new.name''
        \<lparr>v_deprecations := Some [(''older_name'', None, None), (''old_name'', Some ''1.0'', Some ''2.0''),
                                 (''other_name'', None, None)]\<rparr>)
     (default_env [(''APP_OLD_NAME'', ''value''), (''APP_OTHER_NAME'', ''other'')]) ''APP_''
   = ([''APP_OLD_NAME has been deprecated in version 1.0 and will be removed in version 2.0. Use APP_NEW_NAME instead''],
      Inr (VStr ''value''))
   \<and> EnvVariable_retrieve
     (plain_var TStr ''new.name''
        \<lparr>v_deprecations := Some [(''older_name'', None, None), (''old_name'', Some ''1.0'', Some ''2.0''),
                                 (''other_name'', None, None)]\<rparr>)
     (default_env [(''APP_OLD_NAME'', ''value''), (''APP_NEW_NAME'', ''new'')]) ''APP_''
   = ([], Inr (VStr ''new''))"
proof -
  let ?v = "plain_var TStr ''new.name''
        \<lparr>v_deprecations := Some [(''older_name'', None, None), (''old_name'', Some ''1.0'', Some ''2.0''),
                                 (''other_name'', None, None)]\<rparr>"
  let ?e1 = "default_env [(''APP_OLD_NAME'', ''value''), (''APP_OTHER_NAME'', ''other'')]"
  let ?e2 = "default_env [(''APP_OLD_NAME'', ''value''), (''APP_NEW_NAME'', ''new'')]"
  have n: "normalized ''new.name'' = ''NEW_NAME''" "normalized ''old_name'' = ''OLD_NAME''"
    "normalized ''older_name'' = ''OLDER_NAME''"
    by code_simp+
  have vn: "v_name ?v = ''new.name''"
    by (simp add: plain_var_def)
  have c1: "coerce ?v ?e1 ''value'' = Inr (VStr ''value'')"
    and c2: "coerce ?v ?e2 ''new'' = Inr (VStr ''new'')"
    by (simp_all add: coerce_def plain_var_def isinstance_any_def)
  have h1: "source_get (source ?e1) (''APP_'' @ normalized (v_name ?v)) = None
      \<and> v_deprecations ?v = Some ([(''older_name'', None, None)] @ (''old_name'', Some ''1.0'', Some ''2.0'')
                                     # [(''other_name'', None, None)])
      \<and> (\<forall>(n, a, b) \<in> set [(''older_name'', None :: string option, None :: string option)].
            source_get (source ?e1) (''APP_'' @ normalized n) = None)
      \<and> source_get (source ?e1) (''APP_'' @ normalized ''old_name'') = Some ''value''"
    by (simp add: n plain_var_def default_env_def source_get_def)
  have h2: "source_get (source ?e2) (''APP_'' @ normalized (v_name ?v)) = Some ''new''"
    by (simp add: n plain_var_def default_env_def source_get_def)
  have "EnvVariable_retrieve ?v ?e1 ''APP_'' =
      ([(''APP_'' @ normalized ''old_name'') @ '' has been deprecated''
         @ '' in version '' @ ''1.0'' @ '' and will be removed in version '' @ ''2.0''
         @ ''. Use '' @ (''APP_'' @ normalized (v_name ?v)) @ '' instead''],
       coerce ?v ?e1 ''value'')"
    using deprecated_alias_resolution
      [of ?e1 "''APP_''" ?v "[(''older_name'', None, None)]" "''old_name''" "Some ''1.0''"
          "Some ''2.0''" "[(''other_name'', None, None)]" "''value''"] h1
    by simp
  then have first: "EnvVariable_retrieve ?v ?e1 ''APP_'' =
      ([''APP_OLD_NAME has been deprecated in version 1.0 and will be removed in version 2.0. Use APP_NEW_NAME instead''],
       Inr (VStr ''value''))"
    by (simp add: n c1 vn)
  have "EnvVariable_retrieve ?v ?e2 ''APP_'' = ([], coerce ?v ?e2 ''new'')"
    using deprecated_alias_resolution
      [of ?e2 "''APP_''" ?v "[]" "''x''" None None "[]" "''new''"] h2
    by simp
  then have second: "EnvVariable_retrieve ?v ?e2 ''APP_'' = ([], Inr (VStr ''new''))"
    by (simp add: c2)
  from first second show ?thesis by simp
qed

subsection \<open>Lists and dicts\<close>

text \<open>What \<open>split\<close> returns joins back to the string, and \<open>d[k] = v\<close> is a map update.\<close>

lemma split_from_not_Nil: "split_from sep acc s \<noteq> []"
  by (induction sep acc s rule: split_from.induct) auto

lemma join_Cons: "ps \<noteq> [] \<Longrightarrow> join sep (p # ps) = p @ sep @ join sep ps"
  by (cases ps) auto

lemma join_split_from: "sep \<noteq> [] \<Longrightarrow> join sep (split_from sep acc s) = rev acc @ s"
proof (induction sep acc s rule: split_from.induct)
  case (1 sep acc)
  then show ?case by simp
next
  case (2 sep acc c cs)
  show ?case
  proof (cases "take (length sep) (c # cs) = sep")
    case True
    have "c # cs = take (length sep) (c # cs) @ drop (length sep) (c # cs)"
      by (simp only: append_take_drop_id)
    moreover have "drop (length sep) (c # cs) = drop (length sep - 1) cs"
      using 2(3) by (cases sep) auto
    ultimately have cut: "c # cs = sep @ drop (length sep - 1) cs"
      using True by simp
    have "join sep (split_from sep acc (c # cs))
        = rev acc @ sep @ join sep (split_from sep [] (drop (length sep - 1) cs))"
      using True 2(3) by (simp add: join_Cons split_from_not_Nil)
    also have "\<dots> = rev acc @ sep @ drop (length sep - 1) cs"
      using 2(1) True 2(3) by simp
    finally show ?thesis using cut by simp
  next
    case False
    then show ?thesis using 2(2) 2(3) by simp
  qed
qed

lemma split_once_from_pair:
  "sep \<noteq> [] \<Longrightarrow> split_once_from sep acc s = [k, v] \<Longrightarrow> rev acc @ s = k @ sep @ v"
proof (induction sep acc s rule: split_once_from.induct)
  case (1 sep acc)
  then show ?case by simp
next
  case (2 sep acc c cs)
  show ?case
  proof (cases "take (length sep) (c # cs) = sep")
    case True
    have "c # cs = take (length sep) (c # cs) @ drop (length sep) (c # cs)"
      by (simp only: append_take_drop_id)
    moreover have "drop (length sep) (c # cs) = drop (length sep - 1) cs"
      using 2(2) by (cases sep) auto
    ultimately have cut: "c # cs = sep @ drop (length sep - 1) cs"
      using True by simp
    from True 2(2) 2(3) have "k = rev acc" and "v = drop (length sep - 1) cs"
      by auto
    then show ?thesis using cut by simp
  next
    case False
    then show ?thesis using 2 by simp
  qed
qed

lemma map_of_dict_setitem:
  "map_of (dict_setitem (=) d k v) = (map_of d)(k \<mapsto> v)"
  by (induction d) (auto simp: fun_eq_iff)

lemma fst_set_dict_setitem:
  "fst ` set (dict_setitem (=) d k v) = insert k (fst ` set d)"
proof -
  have "fst ` set (dict_setitem (=) d k v) = dom (map_of (dict_setitem (=) d k v))"
    by (simp only: dom_map_of_conv_image_fst)
  also have "\<dots> = insert k (dom (map_of d))"
    by (simp add: map_of_dict_setitem)
  finally show ?thesis by (simp only: dom_map_of_conv_image_fst)
qed

lemma distinct_dict_setitem:
  "distinct (map fst d) \<Longrightarrow> distinct (map fst (dict_setitem (=) d k v))"
proof (induction d)
  case Nil
  then show ?case by simp
next
  case (Cons p d)
  obtain k' v' where p: "p = (k', v')" by (cases p)
  show ?case
  proof (cases "k' = k")
    case True
    then show ?thesis using Cons.prems p by simp
  next
    case False
    have "k' \<notin> fst ` set (dict_setitem (=) d k v)"
      using Cons.prems p False by (simp add: fst_set_dict_setitem)
    then show ?thesis using Cons p False by simp
  qed
qed

lemma dict_from_items_ok:
  "vsep \<noteq> [] \<Longrightarrow> \<forall>item \<in> set items. length (split_once_from vsep [] item) = 2 \<Longrightarrow>
   \<exists>d'. dict_from_items vsep items d = Inr d'
      \<and> map_of d' = map_of d ++ map_of (rev (map (item_pair vsep) items))
      \<and> (distinct (map fst d) \<longrightarrow> distinct (map fst d'))"
proof (induction items arbitrary: d)
  case Nil
  then show ?case by simp
next
  case (Cons item items)
  let ?d1 = "dict_setitem (=) d (fst (item_pair vsep item)) (snd (item_pair vsep item))"
  from Cons.prems have two: "length (split_once_from vsep [] item) = 2"
    and rest: "\<forall>item \<in> set items. length (split_once_from vsep [] item) = 2"
    by auto
  from Cons.IH [OF Cons.prems(1) rest, of ?d1]
  obtain d' where d': "dict_from_items vsep items ?d1 = Inr d'"
    and m: "map_of d' = map_of ?d1 ++ map_of (rev (map (item_pair vsep) items))"
    and dist: "distinct (map fst ?d1) \<longrightarrow> distinct (map fst d')"
    by blast
  have step: "dict_from_items vsep (item # items) d = Inr d'"
    using two d' Cons.prems(1) by (simp add: py_split_once_def item_pair_def)
  have "map_of ?d1 = map_of d ++ map_of [item_pair vsep item]"
    by (simp add: map_of_dict_setitem)
  then have "map_of d' = map_of d ++ map_of (rev (map (item_pair vsep) (item # items)))"
    using m by (simp only: rev.simps list.map map_of_append map_add_assoc)
  moreover have "distinct (map fst d) \<longrightarrow> distinct (map fst d')"
  proof
    assume "distinct (map fst d)"
    then have "distinct (map fst ?d1)" by (rule distinct_dict_setitem)
    with dist show "distinct (map fst d')" by simp
  qed
  ultimately show ?case using step by simp
qed

lemma dict_from_items_bad:
  "vsep \<noteq> [] \<Longrightarrow> \<exists>item \<in> set items. length (split_once_from vsep [] item) \<noteq> 2 \<Longrightarrow>
   dict_from_items vsep items d = Inl ValueError"
proof (induction items arbitrary: d)
  case Nil
  then show ?case by simp
next
  case (Cons item items)
  show ?case
  proof (cases "length (split_once_from vsep [] item) = 2")
    case True
    with Cons.prems have "\<exists>item \<in> set items. length (split_once_from vsep [] item) \<noteq> 2"
      by auto
    from Cons.IH [OF Cons.prems(1) this] True Cons.prems(1)
    show ?thesis by (simp add: py_split_once_def)
  next
    case False
    then show ?thesis using Cons.prems(1) by (simp add: py_split_once_def)
  qed
qed

lemma coerce_list:
  assumes "v_parser self = None" and "v_map self = None" and "v_type self = TList"
    and "item_separator env \<noteq> []"
  shows "coerce self env raw = Inr (VList (map VStr (split_from (item_separator env) [] raw)))"
proof -
  have "map_items (item_fn None) xs = Inr (map VStr xs)" for xs
    by (induction xs) simp_all
  then show ?thesis
    using assms by (simp add: coerce_def py_split_def make_collection_def)
qed

lemma coerce_dict:
  assumes "v_parser self = None" and "v_type self = TDict"
    and "item_separator env \<noteq> []"
  shows "coerce self env raw =
           make_dict (v_map self) (value_separator env) (split_from (item_separator env) [] raw)"
  using assms by (simp add: coerce_def py_split_def)

lemma item_pair_joins:
  assumes "vsep \<noteq> []" and "length (split_once_from vsep [] item) = 2"
  shows "item = fst (item_pair vsep item) @ vsep @ snd (item_pair vsep item)"
proof -
  obtain k v where kv: "split_once_from vsep [] item = [k, v]"
    using assms(2) by (auto simp: length_Suc_conv numeral_2_eq_2)
  have "item = k @ vsep @ v"
    using split_once_from_pair [OF assms(1) kv] by simp
  moreover have "item_pair vsep item = (k, v)"
    by (simp add: item_pair_def kv)
  ultimately show ?thesis by (simp only: fst_conv snd_conv)
qed

text \<open>
  Claim C4. A variable without a parser whose key is present, under a non-empty item
  separator: if its type is \<open>list\<close> and it has no map, it is retrieved as the list of the
  pieces of the raw string, as strings and in order, and the pieces joined by the
  separator are the raw string. If its type is \<open>dict\<close> (the value separator non-empty as
  well) and every item contains the value separator, each item is cut once into a key and
  a value around the separator, and the dict built from them has each key once, with the
  value of the last item that has this key; the map, where there is one, is then applied
  to the items of that dict. An item without the value separator ends the retrieval with
  a ValueError.
\<close>

theorem list_and_dict_coercion:
  assumes "v_parser self = None"
    and "item_separator env \<noteq> []"
    and "source_get (source env) (prefix @ normalized (v_name self)) = Some raw"
  shows "(v_type self = TList \<and> v_map self = None \<longrightarrow>
            EnvVariable_retrieve self env prefix =
              ([], Inr (VList (map VStr (split_from (item_separator env) [] raw))))
            \<and> join (item_separator env) (split_from (item_separator env) [] raw) = raw)
       \<and> (v_type self = TDict \<and> value_separator env \<noteq> [] \<longrightarrow>
            (if \<forall>item \<in> set (split_from (item_separator env) [] raw).
                  length (split_once_from (value_separator env) [] item) = 2
             then
               (\<forall>item \<in> set (split_from (item_separator env) [] raw).
                  item = fst (item_pair (value_separator env) item) @ value_separator env
                         @ snd (item_pair (value_separator env) item))
               \<and> (\<exists>d. distinct (map fst d)
                     \<and> map_of d = map_of (rev (map (item_pair (value_separator env))
                                                  (split_from (item_separator env) [] raw)))
                     \<and> EnvVariable_retrieve self env prefix =
                         ([], case v_map self of
                                None \<Rightarrow> Inr (VDict (str_items d))
                              | Some m \<Rightarrow>
                                  (case dict_map_items m d [] of
                                     Inl e \<Rightarrow> Inl e
                                   | Inr d' \<Rightarrow> Inr (VDict d'))))
             else EnvVariable_retrieve self env prefix = ([], Inl ValueError)))"
proof (intro conjI impI)
  assume "v_type self = TList \<and> v_map self = None"
  then show "EnvVariable_retrieve self env prefix =
      ([], Inr (VList (map VStr (split_from (item_separator env) [] raw))))"
    using retrieve_present [OF assms(3)] coerce_list [of self env raw] assms(1,2) by simp
next
  show "join (item_separator env) (split_from (item_separator env) [] raw) = raw"
    using join_split_from [OF assms(2), of "[]" raw] by simp
next
  assume a: "v_type self = TDict \<and> value_separator env \<noteq> []"
  let ?items = "split_from (item_separator env) [] raw"
  let ?vsep = "value_separator env"
  have r: "EnvVariable_retrieve self env prefix = ([], make_dict (v_map self) ?vsep ?items)"
    using retrieve_present [OF assms(3)] coerce_dict [of self env raw] assms(1,2) a by simp
  show "if \<forall>item \<in> set ?items. length (split_once_from ?vsep [] item) = 2
        then (\<forall>item \<in> set ?items.
                item = fst (item_pair ?vsep item) @ ?vsep @ snd (item_pair ?vsep item))
             \<and> (\<exists>d. distinct (map fst d)
                   \<and> map_of d = map_of (rev (map (item_pair ?vsep) ?items))
                   \<and> EnvVariable_retrieve self env prefix =
                       ([], case v_map self of
                              None \<Rightarrow> Inr (VDict (str_items d))
                            | Some m \<Rightarrow>
                                (case dict_map_items m d [] of
                                   Inl e \<Rightarrow> Inl e
                                 | Inr d' \<Rightarrow> Inr (VDict d'))))
        else EnvVariable_retrieve self env prefix = ([], Inl ValueError)"
  proof (cases "\<forall>item \<in> set ?items. length (split_once_from ?vsep [] item) = 2")
    case True
    from dict_from_items_ok [of ?vsep ?items "[]"] a True
    obtain d where d: "dict_from_items ?vsep ?items [] = Inr d"
      and m: "map_of d = map_of (rev (map (item_pair ?vsep) ?items))"
      and dist: "distinct (map fst d)"
      by auto
    have "EnvVariable_retrieve self env prefix =
        ([], case v_map self of
               None \<Rightarrow> Inr (VDict (str_items d))
             | Some m \<Rightarrow>
                 (case dict_map_items m d [] of Inl e \<Rightarrow> Inl e | Inr d' \<Rightarrow> Inr (VDict d')))"
      using r d by (simp add: make_dict_def)
    moreover have "\<forall>item \<in> set ?items.
        item = fst (item_pair ?vsep item) @ ?vsep @ snd (item_pair ?vsep item)"
      using True a item_pair_joins by blast
    ultimately have ok: "(\<forall>item \<in> set ?items.
                item = fst (item_pair ?vsep item) @ ?vsep @ snd (item_pair ?vsep item))
             \<and> (\<exists>d. distinct (map fst d)
                   \<and> map_of d = map_of (rev (map (item_pair ?vsep) ?items))
                   \<and> EnvVariable_retrieve self env prefix =
                       ([], case v_map self of
                              None \<Rightarrow> Inr (VDict (str_items d))
                            | Some m \<Rightarrow>
                                (case dict_map_items m d [] of
                                   Inl e \<Rightarrow> Inl e
                                 | Inr d' \<Rightarrow> Inr (VDict d'))))"
      using m dist by blast
    show ?thesis unfolding if_P [OF True] by (fact ok)
  next
    case False
    then have "dict_from_items ?vsep ?items [] = Inl ValueError"
      using dict_from_items_bad [of ?vsep ?items "[]"] a by blast
    then have bad: "EnvVariable_retrieve self env prefix = ([], Inl ValueError)"
      using r by (simp add: make_dict_def)
    show ?thesis unfolding if_not_P [OF False] by (fact bad)
  qed
qed

theorem list_and_dict_coercion_witness:
  "EnvVariable_retrieve (plain_var TList ''items'') (default_env [(''ITEMS'', ''a,b,c'')]) []
     = ([], Inr (VList [VStr ''a'', VStr ''b'', VStr ''c'']))
   \<and> EnvVariable_retrieve (plain_var TDict ''pairs'') (default_env [(''PAIRS'', ''a:1,a:2'')]) []
     = ([], Inr (VDict [(VStr ''a'', VStr ''2'')]))
   \<and> (\<exists>d. distinct (map fst d) \<and> map_of d ''a'' = Some ''2''
        \<and> EnvVariable_retrieve (plain_var TDict ''pairs'')
             (default_env [(''PAIRS'', ''a:1,a:2'')]) [] = ([], Inr (VDict (str_items d))))"
proof -
  let ?lv = "plain_var TList ''items''" and ?le = "default_env [(''ITEMS'', ''a,b,c'')]"
  let ?dv = "plain_var TDict ''pairs''" and ?de = "default_env [(''PAIRS'', ''a:1,a:2'')]"
  have sl: "split_from '','' [] ''a,b,c'' = [''a'', ''b'', ''c'']"
    by code_simp
  have sd: "split_from '','' [] ''a:1,a:2'' = [''a:1'', ''a:2'']"
    by code_simp
  have p1: "item_pair '':'' ''a:1'' = (''a'', ''1'')" and p2: "item_pair '':'' ''a:2'' = (''a'', ''2'')"
    by code_simp+
  have l1: "split_once_from '':'' [] ''a:1'' = [''a'', ''1'']"
    and l2: "split_once_from '':'' [] ''a:2'' = [''a'', ''2'']"
    by code_simp+
  have hl: "source_get (source ?le) ([] @ normalized (v_name ?lv)) = Some ''a,b,c''"
    by code_simp
  have hd: "source_get (source ?de) ([] @ normalized (v_name ?dv)) = Some ''a:1,a:2''"
    by code_simp
  have first: "EnvVariable_retrieve ?lv ?le [] = ([], Inr (VList [VStr ''a'', VStr ''b'', VStr ''c'']))"
    using list_and_dict_coercion [of ?lv ?le "[]" "''a,b,c''", OF _ _ hl] sl
    by (simp add: plain_var_def default_env_def)
  have "\<exists>d. distinct (map fst d)
        \<and> map_of d = map_of (rev (map (item_pair '':'') [''a:1'', ''a:2'']))
        \<and> EnvVariable_retrieve ?dv ?de [] = ([], Inr (VDict (str_items d)))"
    using list_and_dict_coercion [of ?dv ?de "[]" "''a:1,a:2''", OF _ _ hd] sd l1 l2
    by (simp add: plain_var_def default_env_def)
  then have third: "\<exists>d. distinct (map fst d) \<and> map_of d ''a'' = Some ''2''
        \<and> EnvVariable_retrieve ?dv ?de [] = ([], Inr (VDict (str_items d)))"
    by (auto simp: p1 p2)
  have second: "EnvVariable_retrieve ?dv ?de [] = ([], Inr (VDict [(VStr ''a'', VStr ''2'')]))"
    by code_simp
  from first second third show ?thesis by blast
qed

subsection \<open>The empty string as a collection\<close>

text \<open>
  Claim C10: a variable of type \<open>list\<close>, \<open>tuple\<close> or \<open>set\<close> with neither parser nor map,
  whose key is present with the empty string as its value, is retrieved as the collection
  of one element, the empty string. The item separator is not empty (\<open>split\<close> raises a
  ValueError on an empty separator, whatever the raw value).
\<close>

theorem empty_raw_collection:
  assumes "v_parser self = None" and "v_map self = None"
    and "v_type self \<in> {TList, TTuple, TSet}"
    and "item_separator env \<noteq> []"
    and "source_get (source env) (prefix @ normalized (v_name self)) = Some []"
  shows "EnvVariable_retrieve self env prefix =
           ([], Inr (if v_type self = TList then VList [VStr []]
                     else if v_type self = TTuple then VTuple [VStr []]
                     else VSet [VStr []]))"
proof -
  have c: "coerce self env [] =
      Inr (if v_type self = TList then VList [VStr []]
           else if v_type self = TTuple then VTuple [VStr []]
           else VSet [VStr []])"
    using assms(1-4)
    by (auto simp: coerce_def py_split_def make_collection_def set_add_def)
  show ?thesis
    using retrieve_present [OF assms(5)] c by simp
qed

theorem empty_raw_collection_witness:
  "EnvVariable_retrieve (plain_var TSet ''tags'') (default_env [(''APP_TAGS'', [])]) ''APP_''
     = ([], Inr (VSet [VStr []]))"
proof -
  have h: "source_get (source (default_env [(''APP_TAGS'', [])]))
             (''APP_'' @ normalized (v_name (plain_var TSet ''tags''))) = Some []"
    by code_simp
  show ?thesis
    using empty_raw_collection
      [of "plain_var TSet ''tags''" "default_env [(''APP_TAGS'', [])]" "''APP_''", OF _ _ _ _ h]
    by (simp add: plain_var_def default_env_def)
qed

section \<open>Properties of construction\<close>

text \<open>Assigning an attribute leaves the source, the parent and the prefix alone.\<close>

lemma setattr_fields [simp]:
  "i_source (setattr self name a) = i_source self"
  "i_parent (setattr self name a) = i_parent self"
  "i_full_prefix (setattr self name a) = i_full_prefix self"
  "i_attrs (setattr self name a) = dict_setitem (=) (i_attrs self) name a"
  by (simp_all add: setattr_def)











subsection \<open>The full prefix\<close>







subsection \<open>The two passes of the constructor\<close>



subsection \<open>An empty source\<close>



section \<open>Properties of the help entries\<close>

text \<open>
  Claim C8 says that the keys \<open>help_info\<close> shows carry the prefixes the constructor
  computes, an empty declared prefix included, and that the nested classes are visited
  depth-first. \<open>help_info\<close> appends the underscore to every prefix that does not end with
  one, the empty prefix too, where the constructor leaves an empty prefix empty: for the
  class without a prefix declaring \<open>debug\<close> the entry shows the key \<open>_DEBUG\<close>, while the
  constructor reads \<open>DEBUG\<close> and does not look at \<open>_DEBUG\<close>. And the loop takes the next
  class from the end of its list while it puts the nested classes at the front (the line
  is commented as depth-first): in the class \<open>app\<close> with \<open>a\<close> (nesting \<open>a1\<close>) and \<open>b\<close>
  (nesting \<open>b1\<close>), both \<open>b\<close> and \<open>a\<close> are visited before \<open>b1\<close> and \<open>a1\<close>.
\<close>

theorem help_info_prefix_and_order:
  "Env_help_info union_name py_str flat_class False = Inr [(''``_DEBUG``'', ''``bool``'', [], [])]
   \<and> Env_init [(''DEBUG'', ''yes'')] flat_class None None
       = ([], Inr (Inst [(''DEBUG'', ''yes'')] None [] [(''debug'', AVal (VBool True))]))
   \<and> Env_init [(''_DEBUG'', ''yes'')] flat_class None None
       = ([], Inl (KeyError ''DEBUG is not set''))
   \<and> map_sum id (map fst) (Env_help_info union_name py_str tree_class True)
       = Inr [''``APP_X``'', ''``APP_B_Y``'', ''``APP_A_Y``'', ''``APP_B_B1_Z``'',
              ''``APP_A_A1_Z``'']"
proof -
  have "Env_help_info union_name py_str flat_class False
      = Inr [(''``_DEBUG``'', ''``bool``'', [], [])]"
    by code_simp
  moreover have "Env_init [(''DEBUG'', ''yes'')] flat_class None None
       = ([], Inr (Inst [(''DEBUG'', ''yes'')] None [] [(''debug'', AVal (VBool True))]))"
    by code_simp
  moreover have "Env_init [(''_DEBUG'', ''yes'')] flat_class None None
       = ([], Inl (KeyError ''DEBUG is not set''))"
    by code_simp
  moreover have "map_sum id (map fst) (Env_help_info union_name py_str tree_class True)
       = Inr [''``APP_X``'', ''``APP_B_Y``'', ''``APP_A_Y``'', ''``APP_B_B1_Z``'',
              ''``APP_A_A1_Z``'']"
    by code_simp
  ultimately show ?thesis by simp
qed

end
